theory Spec2Isabelle
  imports Complex_Main "HOL-Library.Sublist"
begin

section \<open>Values and exceptions\<close>

text \<open>
  The program is one Python module, \<^verbatim>\<open>app.py\<close>: a request dispatcher
  (\<^verbatim>\<open>serper_search\<close>) and a page function (\<^verbatim>\<open>main\<close>) that fetches up to five
  JSON documents, asks a language-model agent for an answer and writes widgets.

  Everything \<^verbatim>\<open>main\<close> handles is a value decoded from JSON by \<^verbatim>\<open>response.json()\<close>.
  Python's \<^verbatim>\<open>None\<close> is \<open>JNull\<close>, a \<^verbatim>\<open>dict\<close> is an association list in
  insertion order (a decoded document has no duplicate keys; lookups take the first
  binding), a \<^verbatim>\<open>float\<close> is the real number it denotes (the non-finite floats, which
  are truthy like every other non-zero float, are not represented).

  A \<^verbatim>\<open>str\<close> is modelled by its UTF-8 encoding, so \<open>string\<close> is a byte string and a
  character beyond ASCII takes several \<open>char\<close>s; text without a UTF-8 encoding (lone
  surrogates) is not represented.
\<close>

datatype json =
    JNull
  | JBool bool
  | JInt int
  | JFloat real
  | JStr string
  | JArr "json list"
  | JObj "(string \<times> json) list"

text \<open>
  The exceptions the code can raise. \<open>External\<close> stands for whatever a library call
  raises (a connection error of \<^verbatim>\<open>requests.post\<close>, a decoding error of
  \<^verbatim>\<open>response.json()\<close>, a failure of the agent), named by its class.
\<close>

datatype error =
    TypeError
  | AttributeError
  | KeyError
  | IndexError
  | ValueError
  | External string

definition and_then :: "error + 'a \<Rightarrow> ('a \<Rightarrow> error + 'b) \<Rightarrow> error + 'b" where
  "and_then m f = (case m of Inl e \<Rightarrow> Inl e | Inr x \<Rightarrow> f x)"

text \<open>A comprehension or loop body applied from left to right; the first raise wins.\<close>

fun map_err :: "('a \<Rightarrow> error + 'b) \<Rightarrow> 'a list \<Rightarrow> error + 'b list" where
  "map_err f [] = Inr []"
| "map_err f (x # xs) =
     and_then (f x) (\<lambda>y. and_then (map_err f xs) (\<lambda>ys. Inr (y # ys)))"

fun filter_err :: "('a \<Rightarrow> error + bool) \<Rightarrow> 'a list \<Rightarrow> error + 'a list" where
  "filter_err p [] = Inr []"
| "filter_err p (x # xs) =
     and_then (p x) (\<lambda>b. and_then (filter_err p xs) (\<lambda>ys. Inr (if b then x # ys else ys)))"

section \<open>Python strings\<close>

text \<open>The characters of a \<^verbatim>\<open>str\<close>: a byte that is not a continuation byte \<open>10xxxxxx\<close>
  starts a character.\<close>

definition is_cont :: "char \<Rightarrow> bool" where
  "is_cont c = (128 \<le> (of_char c :: nat) \<and> (of_char c :: nat) < 192)"

function utf8_chars :: "string \<Rightarrow> string list" where
  "utf8_chars [] = []"
| "utf8_chars (c # cs) = (c # takeWhile is_cont cs) # utf8_chars (dropWhile is_cont cs)"
  by pat_completeness auto
termination
  by (relation "measure length") (auto simp: length_dropWhile_le less_Suc_eq_le)

text \<open>\<^verbatim>\<open>str.lower()\<close>. Only the ASCII letters are mapped. Of the characters beyond
  ASCII, \<^verbatim>\<open>lower()\<close> sends none to a text with an ASCII letter except U+212A (to k) and
  U+0130 (to i and a combining dot), so a comparison of the result with a literal made of
  other ASCII letters, the only use the program makes of it, is not affected.\<close>

definition lower_char :: "char \<Rightarrow> char" where
  "lower_char c =
     (if 65 \<le> (of_char c :: nat) \<and> (of_char c :: nat) \<le> 90
      then char_of ((of_char c :: nat) + 32) else c)"

definition lower :: "string \<Rightarrow> string" where
  "lower s = map lower_char s"

text \<open>The characters for which \<^verbatim>\<open>str.isspace()\<close> holds, in UTF-8: U+0009 to U+000D,
  U+001C to U+0020, U+0085, U+00A0, U+1680, U+2000 to U+200A, U+2028, U+2029, U+202F,
  U+205F, U+3000.\<close>

definition whitespace :: "string list" where
  "whitespace =
     [[CHR 0x09], [CHR 0x0A], [CHR 0x0B], [CHR 0x0C], [CHR 0x0D],
      [CHR 0x1C], [CHR 0x1D], [CHR 0x1E], [CHR 0x1F], [CHR 0x20],
      [CHR 0xC2, CHR 0x85], [CHR 0xC2, CHR 0xA0], [CHR 0xE1, CHR 0x9A, CHR 0x80],
      [CHR 0xE2, CHR 0x80, CHR 0x80], [CHR 0xE2, CHR 0x80, CHR 0x81],
      [CHR 0xE2, CHR 0x80, CHR 0x82], [CHR 0xE2, CHR 0x80, CHR 0x83],
      [CHR 0xE2, CHR 0x80, CHR 0x84], [CHR 0xE2, CHR 0x80, CHR 0x85],
      [CHR 0xE2, CHR 0x80, CHR 0x86], [CHR 0xE2, CHR 0x80, CHR 0x87],
      [CHR 0xE2, CHR 0x80, CHR 0x88], [CHR 0xE2, CHR 0x80, CHR 0x89],
      [CHR 0xE2, CHR 0x80, CHR 0x8A], [CHR 0xE2, CHR 0x80, CHR 0xA8],
      [CHR 0xE2, CHR 0x80, CHR 0xA9], [CHR 0xE2, CHR 0x80, CHR 0xAF],
      [CHR 0xE2, CHR 0x81, CHR 0x9F], [CHR 0xE3, CHR 0x80, CHR 0x80]]"

function drop_leading :: "string list \<Rightarrow> string \<Rightarrow> string" where
  "drop_leading ws s =
     (case find (\<lambda>w. w \<noteq> [] \<and> prefix w s) ws of
        None \<Rightarrow> s
      | Some w \<Rightarrow> drop_leading ws (drop (length w) s))"
  by pat_completeness auto
termination
  by (relation "measure (\<lambda>(ws, s). length s)") (auto simp: find_Some_iff prefix_def)

declare drop_leading.simps [simp del]

text \<open>\<^verbatim>\<open>str.strip()\<close>: whitespace characters are removed at both ends.\<close>

definition strip :: "string \<Rightarrow> string" where
  "strip s = rev (drop_leading (map rev whitespace) (rev (drop_leading whitespace s)))"

text \<open>\<^verbatim>\<open>str.split(sep)\<close> for a non-empty separator: the text is scanned from the left,
  and each occurrence of the separator found closes a piece and is skipped. \<open>cur\<close> is the
  piece being read.\<close>

function split_from :: "string \<Rightarrow> string \<Rightarrow> string \<Rightarrow> string list" where
  "split_from sep cur [] = [cur]"
| "split_from sep cur (c # cs) =
     (if sep \<noteq> [] \<and> prefix sep (c # cs)
      then cur # split_from sep [] (drop (length sep) (c # cs))
      else split_from sep (cur @ [c]) cs)"
  by pat_completeness auto
termination
  by (relation "measure (\<lambda>(sep, cur, s). length s)") auto

definition split :: "string \<Rightarrow> string \<Rightarrow> string list" where
  "split sep s = split_from sep [] s"

text \<open>\<^verbatim>\<open>sep.join(pieces)\<close>.\<close>

fun join :: "string \<Rightarrow> string list \<Rightarrow> string" where
  "join sep [] = []"
| "join sep [p] = p"
| "join sep (p # q # ps) = p @ sep @ join sep (q # ps)"

section \<open>The operations of the language on decoded values\<close>

text \<open>Truth value testing, as in \<^verbatim>\<open>if v\<close> and \<^verbatim>\<open>a and b\<close>.\<close>

fun truthy :: "json \<Rightarrow> bool" where
  "truthy JNull = False"
| "truthy (JBool b) = b"
| "truthy (JInt i) = (i \<noteq> 0)"
| "truthy (JFloat x) = (x \<noteq> 0)"
| "truthy (JStr s) = (s \<noteq> [])"
| "truthy (JArr xs) = (xs \<noteq> [])"
| "truthy (JObj kvs) = (kvs \<noteq> [])"

text \<open>\<^verbatim>\<open>k in v\<close> for a string \<open>k\<close>: a key of a dict, an element of a list, a substring of
  a string; a \<^verbatim>\<open>TypeError\<close> on anything else.\<close>

fun py_in :: "string \<Rightarrow> json \<Rightarrow> error + bool" where
  "py_in k (JObj kvs) = Inr (k \<in> fst ` set kvs)"
| "py_in k (JArr xs) = Inr (JStr k \<in> set xs)"
| "py_in k (JStr s) = Inr (sublist k s)"
| "py_in k v = Inl TypeError"

text \<open>\<^verbatim>\<open>v[k]\<close> for a string \<open>k\<close>.\<close>

fun getitem :: "json \<Rightarrow> string \<Rightarrow> error + json" where
  "getitem (JObj kvs) k = (case map_of kvs k of None \<Rightarrow> Inl KeyError | Some v \<Rightarrow> Inr v)"
| "getitem v k = Inl TypeError"

text \<open>\<^verbatim>\<open>v[0]\<close>. The keys of a decoded dict are strings, so \<open>0\<close> is never one.\<close>

fun first_item :: "json \<Rightarrow> error + json" where
  "first_item (JArr xs) = (case xs of [] \<Rightarrow> Inl IndexError | x # _ \<Rightarrow> Inr x)"
| "first_item (JStr s) = (case utf8_chars s of [] \<Rightarrow> Inl IndexError | c # _ \<Rightarrow> Inr (JStr c))"
| "first_item (JObj kvs) = Inl KeyError"
| "first_item v = Inl TypeError"

text \<open>\<^verbatim>\<open>len(v)\<close>.\<close>

fun py_len :: "json \<Rightarrow> error + nat" where
  "py_len (JArr xs) = Inr (length xs)"
| "py_len (JStr s) = Inr (length (utf8_chars s))"
| "py_len (JObj kvs) = Inr (length kvs)"
| "py_len v = Inl TypeError"

text \<open>\<^verbatim>\<open>v[:n]\<close>. A slice is not a key of a dict (and not hashable before Python 3.12).\<close>

fun slice_to :: "json \<Rightarrow> nat \<Rightarrow> error + json" where
  "slice_to (JArr xs) n = Inr (JArr (take n xs))"
| "slice_to (JStr s) n = Inr (JStr (concat (take n (utf8_chars s))))"
| "slice_to v n = Inl TypeError"

text \<open>The elements a \<^verbatim>\<open>for\<close> loop or a comprehension visits: the elements of a list,
  the characters of a string, the keys of a dict.\<close>

fun iterate :: "json \<Rightarrow> error + json list" where
  "iterate (JArr xs) = Inr xs"
| "iterate (JStr s) = Inr (map JStr (utf8_chars s))"
| "iterate (JObj kvs) = Inr (map (JStr \<circ> fst) kvs)"
| "iterate v = Inl TypeError"

text \<open>\<^verbatim>\<open>v.get(k, d)\<close>, a method of dicts only.\<close>

fun py_get :: "json \<Rightarrow> string \<Rightarrow> json \<Rightarrow> error + json" where
  "py_get (JObj kvs) k d = Inr (case map_of kvs k of None \<Rightarrow> d | Some v \<Rightarrow> v)"
| "py_get v k d = Inl AttributeError"

text \<open>\<^verbatim>\<open>v.strip()\<close>, \<^verbatim>\<open>v.lower()\<close> and \<^verbatim>\<open>v.split(sep)\<close>, methods of strings only, and
  \<^verbatim>\<open>v.items()\<close>, a method of dicts only.\<close>

fun py_strip :: "json \<Rightarrow> error + json" where
  "py_strip (JStr s) = Inr (JStr (strip s))"
| "py_strip v = Inl AttributeError"

fun py_lower :: "json \<Rightarrow> error + json" where
  "py_lower (JStr s) = Inr (JStr (lower s))"
| "py_lower v = Inl AttributeError"

fun py_split :: "json \<Rightarrow> string \<Rightarrow> error + string list" where
  "py_split (JStr s) sep = (if sep = [] then Inl ValueError else Inr (split sep s))"
| "py_split v sep = Inl AttributeError"

fun py_items :: "json \<Rightarrow> error + (string \<times> json) list" where
  "py_items (JObj kvs) = Inr kvs"
| "py_items v = Inl AttributeError"

text \<open>A replacement field \<^verbatim>\<open>{v}\<close> of an f-string: a string is inserted as it is, any
  other value as the interpreter prints it (\<open>repr\<close>, a parameter of the model).\<close>

definition fmt :: "(json \<Rightarrow> string) \<Rightarrow> json \<Rightarrow> string" where
  "fmt repr v = (case v of JStr s \<Rightarrow> s | _ \<Rightarrow> repr v)"

section \<open>Effects\<close>

text \<open>
  What a run does is recorded as the list of its events, in order: the HTTP requests, the
  call of the agent, and the widgets written, each with the place it is written to. A
  \<^verbatim>\<open>with container:\<close> block decides the place; \<^verbatim>\<open>with cols[i]:\<close> and
  \<^verbatim>\<open>with st.expander(..):\<close> are places inside a place.
\<close>

datatype place =
    Page
  | Sidebar
  | Progress_placeholder
  | Text_container
  | Maps_container
  | Image_container
  | Video_container
  | Shopping_container
  | Column place nat
  | Expander place

record marker =
  location :: "json list"
  popup :: string
  tooltip :: json

text \<open>\<open>Html\<close> is \<^verbatim>\<open>st.markdown(.., unsafe_allow_html=True)\<close>; \<open>Columns\<close> carries the
  relative widths (\<^verbatim>\<open>st.columns(5)\<close> is five equal columns); \<open>Folium_map\<close> is the map
  that \<^verbatim>\<open>folium_static\<close> displays, with its centre and the markers added to it.\<close>

datatype widget =
    Title string
  | Write string
  | Checkbox string bool bool
  | Text_area string
  | Button string
  | Info string
  | Markdown string
  | Html string
  | Divider
  | Image json string
  | Video string
  | Columns "nat list"
  | Container place
  | Expander_of string
  | Folium_map "json list" "marker list"

datatype event =
    Post string "(string \<times> string option) list" json
  | Agent_run string
  | Ui place widget
  | Clear place

text \<open>A computation gives the events it caused and either the exception that ended it
  or its value. Nothing in the program catches an exception.\<close>

type_synonym 'a io = "event list \<times> (error + 'a)"

definition io_return :: "'a \<Rightarrow> 'a io" where
  "io_return x = ([], Inr x)"

definition io_lift :: "error + 'a \<Rightarrow> 'a io" where
  "io_lift r = ([], r)"

definition io_bind :: "'a io \<Rightarrow> ('a \<Rightarrow> 'b io) \<Rightarrow> 'b io" where
  "io_bind m f =
     (case m of
        (es, Inl e) \<Rightarrow> (es, Inl e)
      | (es, Inr x) \<Rightarrow> (case f x of (es', r) \<Rightarrow> (es @ es', r)))"

definition ui :: "place \<Rightarrow> widget \<Rightarrow> unit io" where
  "ui p w = ([Ui p w], Inr ())"

fun io_foreach :: "('a \<Rightarrow> unit io) \<Rightarrow> 'a list \<Rightarrow> unit io" where
  "io_foreach body [] = io_return ()"
| "io_foreach body (x # xs) = io_bind (body x) (\<lambda>_. io_foreach body xs)"

text \<open>
  The world outside the program: the value of \<^verbatim>\<open>SERPER_API_KEY\<close> in the process
  environment (absent: \<^verbatim>\<open>None\<close>), what \<^verbatim>\<open>requests.post\<close> answers to a request, what
  \<^verbatim>\<open>assistant.run(prompt).content\<close> is, and how the interpreter prints a value that is
  not a string. A response has its status code and what \<^verbatim>\<open>response.json()\<close> gives.
  The calls into streamlit and folium are recorded and taken to return.
\<close>

record response =
  status_code :: int
  json_body :: "error + json"

record env =
  api_key :: "string option"
  post :: "string \<Rightarrow> (string \<times> string option) list \<Rightarrow> json \<Rightarrow> error + response"
  agent_run :: "string \<Rightarrow> error + string"
  repr :: "json \<Rightarrow> string"

section \<open>The request dispatcher\<close>

definition SHOPPING_SEARCH_URL :: string where
  "SHOPPING_SEARCH_URL = ''https://google.serper.dev/shopping''"

definition VIDEO_SEARCH_URL :: string where
  "VIDEO_SEARCH_URL = ''https://google.serper.dev/videos''"

definition SEARCH_URL :: string where
  "SEARCH_URL = ''https://google.serper.dev/search''"

definition IMAGE_SEARCH_URL :: string where
  "IMAGE_SEARCH_URL = ''https://google.serper.dev/images''"

definition MAPS_SEARCH_URL :: string where
  "MAPS_SEARCH_URL = ''https://google.serper.dev/maps''"

definition headers :: "env \<Rightarrow> (string \<times> string option) list" where
  "headers env = [(''X-API-KEY'', api_key env), (''Content-Type'', Some ''application/json'')]"

definition endpoint :: "string \<Rightarrow> string" where
  "endpoint search_type =
     (if search_type = ''shopping'' then SHOPPING_SEARCH_URL
      else if search_type = ''videos'' then VIDEO_SEARCH_URL
      else if search_type = ''images'' then IMAGE_SEARCH_URL
      else if search_type = ''maps'' then MAPS_SEARCH_URL
      else SEARCH_URL)"

text \<open>\<^verbatim>\<open>requests.post(url, headers=headers, data=payload)\<close>: the request is recorded,
  whatever becomes of it. The body is the document that \<^verbatim>\<open>json.dumps\<close> serialises.\<close>

definition requests_post ::
  "env \<Rightarrow> string \<Rightarrow> (string \<times> string option) list \<Rightarrow> json \<Rightarrow> response io" where
  "requests_post env url hs payload = ([Post url hs payload], post env url hs payload)"

definition serper_search :: "env \<Rightarrow> string \<Rightarrow> string \<Rightarrow> json io" where
  "serper_search env query search_type =
     (let url = endpoint search_type;
          payload = JObj [(''q'', JStr query)]
      in io_bind (requests_post env url (headers env) payload) (\<lambda>response.
           if status_code response = 200 then io_lift (json_body response)
           else io_return JNull))"

section \<open>The page: the answer of the agent\<close>

text \<open>\<^verbatim>\<open>results and key in results\<close>, the test that guards every section.\<close>

definition has_results :: "json \<Rightarrow> string \<Rightarrow> error + bool" where
  "has_results results key = (if truthy results then py_in key results else Inr False)"

text \<open>\<^verbatim>\<open>results[key][:n]\<close>, and the elements a loop over it visits.\<close>

definition top_items :: "json \<Rightarrow> string \<Rightarrow> nat \<Rightarrow> error + json list" where
  "top_items results key n =
     and_then (getitem results key) (\<lambda>items.
     and_then (slice_to items n) iterate)"

text \<open>What one pass of the loop of lines 187 to 190 adds to \<^verbatim>\<open>search_content\<close>.\<close>

definition organic_entry :: "(json \<Rightarrow> string) \<Rightarrow> json \<Rightarrow> error + string" where
  "organic_entry rp result =
     and_then (py_get result ''title'' (JStr ''No title'')) (\<lambda>title.
     and_then (py_get result ''link'' (JStr ''No link'')) (\<lambda>link.
     and_then (py_get result ''snippet'' (JStr ''No snippet'')) (\<lambda>snippet.
       Inr (''Title: '' @ fmt rp title @ [CHR 0x0A]
          @ ''Link: '' @ fmt rp link @ [CHR 0x0A]
          @ ''Snippet: '' @ fmt rp snippet @ [CHR 0x0A, CHR 0x0A]))))"

definition search_content :: "(json \<Rightarrow> string) \<Rightarrow> json \<Rightarrow> error + string" where
  "search_content rp search_results =
     and_then (has_results search_results ''organic'') (\<lambda>found.
       if found then
         and_then (top_items search_results ''organic'' 5) (\<lambda>results.
         and_then (map_err (organic_entry rp) results) (\<lambda>entries.
           Inr (concat entries)))
       else Inr [])"

text \<open>The f-string of lines 193 to 201. The query is a \<^verbatim>\<open>str\<close>.\<close>

definition prompt :: "string \<Rightarrow> string \<Rightarrow> string" where
  "prompt query content =
     [CHR 0x0A] @ ''            Based on the following search results and your knowledge, provide a comprehensive answer to the query: '' @ [CHR 0x22]
     @ query
     @ [CHR 0x22, CHR 0x0A] @ ''            '' @ [CHR 0x0A] @ ''            Search Results:'' @ [CHR 0x0A] @ ''            ''
     @ content
     @ [CHR 0x0A] @ ''            '' @ [CHR 0x0A] @ ''            Provide a detailed, well-structured response that synthesizes information from the search results.'' @ [CHR 0x0A] @ ''            Include relevant facts, examples, and explanations.'' @ [CHR 0x0A] @ ''            ''"

definition assistant_run :: "env \<Rightarrow> string \<Rightarrow> string io" where
  "assistant_run env p = ([Agent_run p], agent_run env p)"

text \<open>One pass of the loop that lists the sources, \<open>i\<close> counting from 1.\<close>

definition source_entry :: "(json \<Rightarrow> string) \<Rightarrow> nat \<times> json \<Rightarrow> unit io" where
  "source_entry rp = (\<lambda>(i, result).
     io_bind (io_lift
        (and_then (py_get result ''title'' (JStr ''No title'')) (\<lambda>title.
         and_then (py_get result ''link'' (JStr ''#'')) (\<lambda>link.
           Inr (''**'' @ fmt rp (JInt (int i)) @ ''. ['' @ fmt rp title @ '']('' @ fmt rp link @ '')**''))))) (\<lambda>line.
     io_bind (ui (Expander Text_container) (Markdown line)) (\<lambda>_.
     io_bind (io_lift
        (and_then (py_get result ''snippet'' (JStr ''No snippet'')) (\<lambda>snippet.
           Inr (''_'' @ fmt rp snippet @ ''_'')))) (\<lambda>line.
     io_bind (ui (Expander Text_container) (Markdown line)) (\<lambda>_.
       ui (Expander Text_container) Divider)))))"

definition text_section :: "env \<Rightarrow> string \<Rightarrow> json \<Rightarrow> unit io" where
  "text_section env query search_results =
     io_bind (ui Text_container (Markdown (''### '' @ [CHR 0xF0, CHR 0x9F, CHR 0x93, CHR 0x9D] @ '' AI Answer''))) (\<lambda>_.
     io_bind (io_lift (search_content (repr env) search_results)) (\<lambda>content.
     io_bind (assistant_run env (prompt query content)) (\<lambda>answer.
     io_bind (ui Text_container (Markdown answer)) (\<lambda>_.
     io_bind (io_lift (has_results search_results ''organic'')) (\<lambda>found.
       if found then
         io_bind (ui Text_container (Expander_of ([CHR 0xF0, CHR 0x9F, CHR 0x93, CHR 0x9A] @ '' Sources''))) (\<lambda>_.
         io_bind (io_lift (top_items search_results ''organic'' 5)) (\<lambda>results.
           io_foreach (source_entry (repr env)) (enumerate 1 results)))
       else io_return ())))))"

section \<open>The page: map results\<close>

text \<open>\<^verbatim>\<open>maps_results and "places" in maps_results and len(maps_results["places"]) > 0\<close>.\<close>

definition has_places :: "json \<Rightarrow> error + bool" where
  "has_places maps_results =
     and_then (has_results maps_results ''places'') (\<lambda>found.
       if found then
         and_then (getitem maps_results ''places'') (\<lambda>places.
         and_then (py_len places) (\<lambda>n. Inr (n > 0)))
       else Inr False)"

definition map_center :: "json \<Rightarrow> error + json list" where
  "map_center first_place =
     and_then (py_get first_place ''latitude'' (JInt 0)) (\<lambda>lat.
     and_then (py_get first_place ''longitude'' (JInt 0)) (\<lambda>lng.
       Inr [lat, lng]))"

definition popup_text :: "string \<Rightarrow> string \<Rightarrow> string \<Rightarrow> string" where
  "popup_text title address rating =
     [CHR 0x0A] @ ''                                <b>'' @ title
     @ ''</b><br>'' @ [CHR 0x0A] @ ''                                '' @ address
     @ ''<br>'' @ [CHR 0x0A] @ ''                                Rating: '' @ rating
     @ [CHR 0x0A] @ ''                                ''"

text \<open>The markers one pass of the loop of lines 235 to 253 adds to the map: one or
  none.\<close>

definition place_markers :: "(json \<Rightarrow> string) \<Rightarrow> json \<Rightarrow> error + marker list" where
  "place_markers rp place =
     and_then (py_get place ''latitude'' JNull) (\<lambda>lat.
     and_then (py_get place ''longitude'' JNull) (\<lambda>lng.
     and_then (py_get place ''title'' (JStr ''Unknown Location'')) (\<lambda>title.
     and_then (py_get place ''address'' (JStr ''No address available'')) (\<lambda>address.
     and_then (py_get place ''rating'' (JStr ''N/A'')) (\<lambda>rating.
       Inr (if truthy lat \<and> truthy lng
            then [\<lparr>location = [lat, lng],
                   popup = popup_text (fmt rp title) (fmt rp address) (fmt rp rating),
                   tooltip = title\<rparr>]
            else []))))))"

definition hours_text :: "(json \<Rightarrow> string) \<Rightarrow> json \<Rightarrow> error + string" where
  "hours_text rp hours =
     (if truthy hours then
        and_then (py_items hours) (\<lambda>items.
          Inr (join ''<br>'' (map (\<lambda>(day, time). day @ '': '' @ fmt rp time) items)))
      else Inr ''Hours not available'')"

definition place_html ::
  "string \<Rightarrow> string \<Rightarrow> string \<Rightarrow> string \<Rightarrow> string \<Rightarrow> string \<Rightarrow> string \<Rightarrow> string \<Rightarrow> string" where
  "place_html title address rating rating_count phone place_type hours website =
     [CHR 0x0A] @ ''                                <div class='' @ [CHR 0x22] @ ''place-card'' @ [CHR 0x22] @ ''>'' @ [CHR 0x0A] @ ''                                    <h3>''
     @ title
     @ ''</h3>'' @ [CHR 0x0A] @ ''                                    <p><b>'' @ [CHR 0xF0, CHR 0x9F, CHR 0x93, CHR 0x8D] @ '' Address:</b> ''
     @ address
     @ ''</p>'' @ [CHR 0x0A] @ ''                                    <p><b>'' @ [CHR 0xE2, CHR 0xAD, CHR 0x90] @ '' Rating:</b> ''
     @ rating
     @ '' (''
     @ rating_count
     @ '' reviews)</p>'' @ [CHR 0x0A] @ ''                                    <p><b>'' @ [CHR 0xF0, CHR 0x9F, CHR 0x93, CHR 0x9E] @ '' Phone:</b> ''
     @ phone
     @ ''</p>'' @ [CHR 0x0A] @ ''                                    <p><b>'' @ [CHR 0xF0, CHR 0x9F, CHR 0x8F, CHR 0xA2] @ '' Type:</b> ''
     @ place_type
     @ ''</p>'' @ [CHR 0x0A] @ ''                                    <p><b>'' @ [CHR 0xF0, CHR 0x9F, CHR 0x95, CHR 0x92] @ '' Hours:</b><br>''
     @ hours
     @ ''</p>'' @ [CHR 0x0A] @ ''                                    <p><a href='' @ [CHR 0x22]
     @ website
     @ [CHR 0x22] @ '' target='' @ [CHR 0x22] @ ''_blank'' @ [CHR 0x22] @ ''>Visit Website</a></p>'' @ [CHR 0x0A] @ ''                                </div>'' @ [CHR 0x0A] @ ''                                ''"

text \<open>The card one pass of the loop of lines 260 to 286 writes.\<close>

definition place_card :: "(json \<Rightarrow> string) \<Rightarrow> json \<Rightarrow> error + string" where
  "place_card rp place =
     and_then (py_get place ''title'' (JStr ''Unknown Location'')) (\<lambda>title.
     and_then (py_get place ''address'' (JStr ''No address available'')) (\<lambda>address.
     and_then (py_get place ''rating'' (JStr ''N/A'')) (\<lambda>rating.
     and_then (py_get place ''ratingCount'' (JStr ''0'')) (\<lambda>rating_count.
     and_then (py_get place ''phoneNumber'' (JStr ''Not available'')) (\<lambda>phone.
     and_then (py_get place ''website'' (JStr ''#'')) (\<lambda>website.
     and_then (py_get place ''type'' (JStr ''Location'')) (\<lambda>place_type.
     and_then (py_get place ''openingHours'' (JObj [])) (\<lambda>hours.
     and_then (hours_text rp hours) (\<lambda>hours.
       Inr (place_html (fmt rp title) (fmt rp address) (fmt rp rating) (fmt rp rating_count)
              (fmt rp phone) (fmt rp place_type) hours (fmt rp website)))))))))))"

definition maps_section :: "env \<Rightarrow> json \<Rightarrow> unit io" where
  "maps_section env maps_results =
     io_bind (ui Maps_container (Markdown (''### '' @ [CHR 0xF0, CHR 0x9F, CHR 0x97, CHR 0xBA, CHR 0xEF, CHR 0xB8, CHR 0x8F] @ '' Map Results''))) (\<lambda>_.
     io_bind (io_lift (has_places maps_results)) (\<lambda>found.
       if found then
         io_bind (io_lift
            (and_then (getitem maps_results ''places'') (\<lambda>places.
             and_then (first_item places) map_center))) (\<lambda>center.
         io_bind (ui Maps_container (Columns [3, 2])) (\<lambda>_.
         io_bind (io_lift
            (and_then (getitem maps_results ''places'') (\<lambda>places.
             and_then (iterate places) (map_err (place_markers (repr env)))))) (\<lambda>markers.
         io_bind (ui (Column Maps_container 0) (Folium_map center (concat markers))) (\<lambda>_.
         io_bind (io_lift (top_items maps_results ''places'' 5)) (\<lambda>places.
           io_foreach (\<lambda>place.
             io_bind (io_lift (place_card (repr env) place)) (\<lambda>card.
               ui (Column Maps_container 1) (Html card))) places)))))
       else ui Maps_container (Info ''No map results available for this query.'')))"

section \<open>The page: images, videos, products\<close>

text \<open>\<^verbatim>\<open>xs[0]\<close> and \<^verbatim>\<open>xs[-1]\<close> on the list of pieces that \<^verbatim>\<open>split\<close> gives.\<close>

definition head_piece :: "string list \<Rightarrow> error + string" where
  "head_piece ps = (case ps of [] \<Rightarrow> Inl IndexError | p # _ \<Rightarrow> Inr p)"

definition last_piece :: "string list \<Rightarrow> error + string" where
  "last_piece ps = (case rev ps of [] \<Rightarrow> Inl IndexError | p # _ \<Rightarrow> Inr p)"

text \<open>\<^verbatim>\<open>img.get("title", "").split("...")[0] if img.get("title") else ""\<close>.\<close>

definition image_caption :: "json \<Rightarrow> error + string" where
  "image_caption img =
     and_then (py_get img ''title'' JNull) (\<lambda>t.
       if truthy t then
         and_then (py_get img ''title'' (JStr '''')) (\<lambda>title.
         and_then (py_split title ''...'') head_piece)
       else Inr '''')"

text \<open>One pass of the loop of lines 301 to 308.\<close>

definition image_entry :: "nat \<times> json \<Rightarrow> unit io" where
  "image_entry = (\<lambda>(i, img).
     io_bind (io_lift (py_get img ''imageUrl'' (JStr ''''))) (\<lambda>url.
     io_bind (io_lift (image_caption img)) (\<lambda>caption.
       ui (Column Image_container (i mod 5)) (Image url caption))))"

definition image_section :: "env \<Rightarrow> json \<Rightarrow> unit io" where
  "image_section env image_results =
     io_bind (ui Image_container (Markdown (''### '' @ [CHR 0xF0, CHR 0x9F, CHR 0x96, CHR 0xBC, CHR 0xEF, CHR 0xB8, CHR 0x8F] @ '' Image Results''))) (\<lambda>_.
     io_bind (io_lift (has_results image_results ''images'')) (\<lambda>found.
       if found then
         io_bind (io_lift
            (and_then (getitem image_results ''images'') (\<lambda>items. slice_to items 10))) (\<lambda>images.
         io_bind (ui Image_container (Columns [1, 1, 1, 1, 1])) (\<lambda>_.
         io_bind (io_lift (iterate images)) (\<lambda>imgs.
           io_foreach image_entry (enumerate 0 imgs))))
       else ui Image_container (Info ''No image results available for this query.'')))"

text \<open>The condition of the comprehension of lines 319 to 322.\<close>

definition is_youtube :: "json \<Rightarrow> error + bool" where
  "is_youtube video =
     and_then (py_get video ''source'' (JStr '''')) (\<lambda>source.
     and_then (py_strip source) (\<lambda>stripped.
     and_then (py_lower stripped) (\<lambda>lowered.
       Inr (lowered = JStr ''youtube''))))"

text \<open>Lines 333 to 337: the address to embed, or nothing where the loop continues.\<close>

definition embed_url :: "json \<Rightarrow> error + string option" where
  "embed_url link =
     and_then (py_in ''youtube.com/watch?v='' link) (\<lambda>found.
       if found then
         and_then (py_split link ''v='') (\<lambda>pieces.
         and_then (last_piece pieces) (\<lambda>rest.
         and_then (py_split (JStr rest) ''&'') (\<lambda>parts.
         and_then (head_piece parts) (\<lambda>video_id.
           Inr (Some (''https://www.youtube.com/embed/'' @ video_id))))))
       else Inr None)"

definition video_caption :: "string \<Rightarrow> string \<Rightarrow> string \<Rightarrow> string" where
  "video_caption title channel duration =
     ''**'' @ title
     @ ''**'' @ [CHR 0x0A, CHR 0x0A, CHR 0xF0, CHR 0x9F, CHR 0x93, CHR 0xBA] @ '' '' @ channel
     @ '' | '' @ [CHR 0xE2, CHR 0x8F, CHR 0xB1, CHR 0xEF, CHR 0xB8, CHR 0x8F] @ '' '' @ duration"

text \<open>One pass of the loop of lines 326 to 341.\<close>

definition video_entry :: "(json \<Rightarrow> string) \<Rightarrow> nat \<times> json \<Rightarrow> unit io" where
  "video_entry rp = (\<lambda>(idx, video).
     io_bind (io_lift (py_get video ''title'' (JStr ''Unknown Video''))) (\<lambda>title.
     io_bind (io_lift (py_get video ''link'' (JStr ''#''))) (\<lambda>link.
     io_bind (io_lift (py_get video ''duration'' (JStr ''Unknown duration''))) (\<lambda>duration.
     io_bind (io_lift (py_get video ''channel'' (JStr ''Unknown Channel''))) (\<lambda>channel.
     io_bind (io_lift (embed_url link)) (\<lambda>embed.
       (case embed of
          None \<Rightarrow> io_return ()
        | Some url \<Rightarrow>
            io_bind (ui (Column Video_container (idx mod 3)) (Video url)) (\<lambda>_.
              ui (Column Video_container (idx mod 3))
                (Markdown (video_caption (fmt rp title) (fmt rp channel) (fmt rp duration)))))))))))"

definition video_section :: "env \<Rightarrow> json \<Rightarrow> unit io" where
  "video_section env video_results =
     io_bind (ui Video_container (Markdown (''### '' @ [CHR 0xF0, CHR 0x9F, CHR 0x93, CHR 0xB9] @ '' Related Videos''))) (\<lambda>_.
     io_bind (io_lift (has_results video_results ''videos'')) (\<lambda>found.
       if found then
         io_bind (io_lift
            (and_then (getitem video_results ''videos'') (\<lambda>videos.
             and_then (iterate videos) (filter_err is_youtube)))) (\<lambda>youtube_videos.
           if youtube_videos \<noteq> [] then
             io_bind (ui Video_container (Columns [1, 1, 1])) (\<lambda>_.
               io_foreach (video_entry (repr env)) (enumerate 0 (take 6 youtube_videos)))
           else ui Video_container (Info ''No relevant videos found for this query.''))
       else ui Video_container (Info ''No video results available.'')))"

definition product_html ::
  "string \<Rightarrow> string \<Rightarrow> string \<Rightarrow> string \<Rightarrow> string \<Rightarrow> string \<Rightarrow> string" where
  "product_html image_url link title price rating source =
     [CHR 0x0A] @ ''                                <div class='' @ [CHR 0x22] @ ''product-card'' @ [CHR 0x22] @ ''>'' @ [CHR 0x0A] @ ''                                    <img src='' @ [CHR 0x22]
     @ image_url
     @ [CHR 0x22] @ '' style='' @ [CHR 0x22] @ ''width:100%; height:100px; object-fit:contain;'' @ [CHR 0x22] @ ''>'' @ [CHR 0x0A] @ ''                                    <p style='' @ [CHR 0x22] @ ''font-size:12px; font-weight:bold; margin:5px 0; white-space:nowrap; '' @ [CHR 0x0A] @ ''                                    overflow:hidden; text-overflow:ellipsis;'' @ [CHR 0x22] @ ''>'' @ [CHR 0x0A] @ ''                                        <a href='' @ [CHR 0x22]
     @ link
     @ [CHR 0x22] @ '' target='' @ [CHR 0x22] @ ''_blank'' @ [CHR 0x22] @ ''>''
     @ title
     @ ''</a>'' @ [CHR 0x0A] @ ''                                    </p>'' @ [CHR 0x0A] @ ''                                    <p style='' @ [CHR 0x22] @ ''font-size:12px; margin:5px 0;'' @ [CHR 0x22] @ ''>'' @ [CHR 0xF0, CHR 0x9F, CHR 0x92, CHR 0xB2] @ '' <b>''
     @ price
     @ ''</b></p>'' @ [CHR 0x0A] @ ''                                    <p style='' @ [CHR 0x22] @ ''font-size:12px; margin:0;'' @ [CHR 0x22] @ ''>'' @ [CHR 0xE2, CHR 0xAD, CHR 0x90] @ '' ''
     @ rating
     @ '' | '' @ [CHR 0xF0, CHR 0x9F, CHR 0x8F, CHR 0xAC] @ '' ''
     @ source
     @ ''</p>'' @ [CHR 0x0A] @ ''                                </div>'' @ [CHR 0x0A] @ ''                                ''"

text \<open>The card one pass of the loop of lines 357 to 379 writes.\<close>

definition product_card :: "(json \<Rightarrow> string) \<Rightarrow> json \<Rightarrow> error + string" where
  "product_card rp product =
     and_then (py_get product ''title'' (JStr ''Unknown Product'')) (\<lambda>title.
     and_then (py_get product ''link'' (JStr ''#'')) (\<lambda>link.
     and_then (py_get product ''price'' (JStr ''Price not available'')) (\<lambda>price.
     and_then (py_get product ''source'' (JStr ''Unknown Source'')) (\<lambda>source.
     and_then (py_get product ''imageUrl'' (JStr '''')) (\<lambda>image_url.
     and_then (py_get product ''rating'' (JStr ''No rating'')) (\<lambda>rating.
       Inr (product_html (fmt rp image_url) (fmt rp link) (fmt rp title) (fmt rp price)
              (fmt rp rating) (fmt rp source))))))))"

definition shopping_section :: "env \<Rightarrow> json \<Rightarrow> unit io" where
  "shopping_section env shopping_results =
     io_bind (ui Shopping_container (Markdown (''### '' @ [CHR 0xF0, CHR 0x9F, CHR 0x9B, CHR 0x92] @ '' Related Products''))) (\<lambda>_.
     io_bind (io_lift (has_results shopping_results ''shopping'')) (\<lambda>found.
       if found then
         io_bind (io_lift (getitem shopping_results ''shopping'')) (\<lambda>products.
         io_bind (ui Shopping_container (Columns [1, 1, 1, 1, 1])) (\<lambda>_.
         io_bind (io_lift (and_then (slice_to products 10) iterate)) (\<lambda>items.
           io_foreach (\<lambda>(idx, product).
             io_bind (io_lift (product_card (repr env) product)) (\<lambda>card.
               ui (Column Shopping_container (idx mod 5)) (Html card))) (enumerate 0 items))))
       else ui Shopping_container (Info ''No shopping results available for this query.'')))"

section \<open>The page function\<close>

text \<open>What the user has entered when the script runs: the four optional checkboxes,
  the text area and whether the button was clicked.\<close>

record inputs =
  show_maps :: bool
  show_images :: bool
  show_videos :: bool
  show_shopping :: bool
  query :: string
  search_button :: bool

text \<open>\<^verbatim>\<open>st.container() if show else None\<close>.\<close>

definition container_if :: "bool \<Rightarrow> place \<Rightarrow> place option io" where
  "container_if show p =
     (if show then io_bind (ui Page (Container p)) (\<lambda>_. io_return (Some p))
      else io_return None)"

text \<open>\<^verbatim>\<open>serper_search(query, search_type=t) if show else None\<close>.\<close>

definition fetch_if :: "env \<Rightarrow> string \<Rightarrow> bool \<Rightarrow> string \<Rightarrow> json io" where
  "fetch_if env q show search_type =
     (if show then serper_search env q search_type else io_return JNull)"

text \<open>Lines 166 to 175: the general search, then the searches whose sections are
  enabled, one after another.\<close>

definition fetch_results :: "env \<Rightarrow> inputs \<Rightarrow> (json \<times> json \<times> json \<times> json \<times> json) io" where
  "fetch_results env inp =
     io_bind (serper_search env (query inp) ''search'') (\<lambda>search_results.
     io_bind (fetch_if env (query inp) (show_maps inp) ''maps'') (\<lambda>maps_results.
     io_bind (fetch_if env (query inp) (show_images inp) ''images'') (\<lambda>image_results.
     io_bind (fetch_if env (query inp) (show_videos inp) ''videos'') (\<lambda>video_results.
     io_bind (fetch_if env (query inp) (show_shopping inp) ''shopping'') (\<lambda>shopping_results.
       io_return (search_results, maps_results, image_results, video_results,
                  shopping_results))))))"

text \<open>Lines 177 to 381: the progress message is cleared and the sections are
  written, each optional one only if it is selected and has its container.\<close>

definition show_sections ::
  "env \<Rightarrow> inputs \<Rightarrow> place option \<times> place option \<times> place option \<times> place option
     \<Rightarrow> json \<times> json \<times> json \<times> json \<times> json \<Rightarrow> unit io" where
  "show_sections env inp =
     (\<lambda>(maps_container, image_container, video_container, shopping_container)
        (search_results, maps_results, image_results, video_results, shopping_results).
     io_bind ([Clear Progress_placeholder], Inr ()) (\<lambda>_.
     io_bind (text_section env (query inp) search_results) (\<lambda>_.
     io_bind (if show_maps inp \<and> maps_container \<noteq> None
              then maps_section env maps_results else io_return ()) (\<lambda>_.
     io_bind (if show_images inp \<and> image_container \<noteq> None
              then image_section env image_results else io_return ()) (\<lambda>_.
     io_bind (if show_videos inp \<and> video_container \<noteq> None
              then video_section env video_results else io_return ()) (\<lambda>_.
       if show_shopping inp \<and> shopping_container \<noteq> None
       then shopping_section env shopping_results else io_return ()))))))"

text \<open>Lines 150 to 381, the body of \<^verbatim>\<open>if search_button and query\<close>: the progress
  message, the containers, the searches, the sections.\<close>

definition process_query :: "env \<Rightarrow> inputs \<Rightarrow> unit io" where
  "process_query env inp =
     io_bind (ui Page (Container Progress_placeholder)) (\<lambda>_.
     io_bind (ui Progress_placeholder (Info ([CHR 0xF0, CHR 0x9F, CHR 0x94, CHR 0x8D] @ '' Searching for information...''))) (\<lambda>_.
     io_bind (ui Page (Container Text_container)) (\<lambda>_.
     io_bind (container_if (show_maps inp) Maps_container) (\<lambda>maps_container.
     io_bind (container_if (show_images inp) Image_container) (\<lambda>image_container.
     io_bind (container_if (show_videos inp) Video_container) (\<lambda>video_container.
     io_bind (container_if (show_shopping inp) Shopping_container) (\<lambda>shopping_container.
     io_bind (fetch_results env inp)
       (show_sections env inp
          (maps_container, image_container, video_container, shopping_container)))))))))"

text \<open>\<^verbatim>\<open>main\<close>. The checkboxes, the text area and the button return what the user has
  entered; \<open>Checkbox\<close> carries the label, the initial value and whether it is disabled.\<close>

definition main :: "env \<Rightarrow> inputs \<Rightarrow> unit io" where
  "main env inp =
     io_bind (ui Page (Title ([CHR 0xF0, CHR 0x9F, CHR 0x94, CHR 0x8D] @ '' Perplexity AI''))) (\<lambda>_.
     io_bind (ui Sidebar (Title ''Content Sections'')) (\<lambda>_.
     io_bind (ui Sidebar (Write ''Select which content sections to display in results:'')) (\<lambda>_.
     io_bind (ui Sidebar (Checkbox ([CHR 0xF0, CHR 0x9F, CHR 0x93, CHR 0x9D] @ '' AI Answer'') True True)) (\<lambda>_.
     io_bind (ui Sidebar (Checkbox ([CHR 0xF0, CHR 0x9F, CHR 0x97, CHR 0xBA, CHR 0xEF, CHR 0xB8, CHR 0x8F] @ '' Map Results'') False False)) (\<lambda>_.
     io_bind (ui Sidebar (Checkbox ([CHR 0xF0, CHR 0x9F, CHR 0x96, CHR 0xBC, CHR 0xEF, CHR 0xB8, CHR 0x8F] @ '' Image Results'') False False)) (\<lambda>_.
     io_bind (ui Sidebar (Checkbox ([CHR 0xF0, CHR 0x9F, CHR 0x93, CHR 0xB9] @ '' Related Videos'') False False)) (\<lambda>_.
     io_bind (ui Sidebar (Checkbox ([CHR 0xF0, CHR 0x9F, CHR 0x9B, CHR 0x92] @ '' Related Products'') False False)) (\<lambda>_.
     io_bind (ui Page (Text_area ''Ask me anything:'')) (\<lambda>_.
     io_bind (ui Page (Button ([CHR 0xF0, CHR 0x9F, CHR 0x94, CHR 0x8D] @ '' Search''))) (\<lambda>_.
       if search_button inp \<and> query inp \<noteq> [] then process_query env inp
       else io_return ()))))))))))"

section \<open>Reading a run\<close>

text \<open>The container a place lies in, the widgets a run wrote into a container, and the
  addresses it posted to.\<close>

fun container_of :: "place \<Rightarrow> place" where
  "container_of (Column p n) = container_of p"
| "container_of (Expander p) = container_of p"
| "container_of p = p"

fun written_to :: "place \<Rightarrow> event list \<Rightarrow> widget list" where
  "written_to c [] = []"
| "written_to c (Ui p w # es) =
     (if container_of p = c then w # written_to c es else written_to c es)"
| "written_to c (e # es) = written_to c es"

fun posted_to :: "event list \<Rightarrow> string list" where
  "posted_to [] = []"
| "posted_to (Post url hs body # es) = url # posted_to es"
| "posted_to (e # es) = posted_to es"

definition events :: "'a io \<Rightarrow> event list" where
  "events m = fst m"

definition outcome :: "'a io \<Rightarrow> error + 'a" where
  "outcome m = snd m"

fun prompts_of :: "event list \<Rightarrow> string list" where
  "prompts_of [] = []"
| "prompts_of (Agent_run p # es) = p # prompts_of es"
| "prompts_of (e # es) = prompts_of es"

text \<open>An event that writes a widget into a given container, and an event that is a
  request.\<close>

fun in_container :: "place \<Rightarrow> event \<Rightarrow> bool" where
  "in_container c (Ui p w) = (container_of p = c)"
| "in_container c e = False"

fun is_post :: "event \<Rightarrow> bool" where
  "is_post (Post url hs body) = True"
| "is_post e = False"

text \<open>The addresses of the videos a run embedded.\<close>

fun videos_of :: "event list \<Rightarrow> string list" where
  "videos_of [] = []"
| "videos_of (Ui p (Video url) # es) = url # videos_of es"
| "videos_of (e # es) = videos_of es"

section \<open>Words of the specification\<close>

text \<open>The value of a field of an item, or the default where the item has no such
  field: what the specification calls a lookup that falls back to a default.\<close>

definition field_or :: "(string \<times> json) list \<Rightarrow> string \<Rightarrow> json \<Rightarrow> json" where
  "field_or fs key dflt = (case map_of fs key of None \<Rightarrow> dflt | Some v \<Rightarrow> v)"

section \<open>Sample runs\<close>

text \<open>A printer and two worlds used to run the theorems on concrete inputs: one where
  every request is answered with status 500, one where the agent fails.\<close>

definition sample_repr :: "json \<Rightarrow> string" where
  "sample_repr v =
     (case v of JNull \<Rightarrow> ''None'' | JBool b \<Rightarrow> (if b then ''True'' else ''False'')
      | JInt i \<Rightarrow> (if i = 0 then ''0'' else if i = 1 then ''1'' else ''<int>'')
      | JFloat x \<Rightarrow> ''<float>'' | JStr s \<Rightarrow> s | JArr xs \<Rightarrow> ''<list>''
      | JObj kvs \<Rightarrow> ''<dict>'')"

definition env_down :: env where
  "env_down =
     \<lparr>api_key = Some ''secret'',
      post = (\<lambda>url hs body. Inr \<lparr>status_code = 500, json_body = Inl (External ''JSONDecodeError'')\<rparr>),
      agent_run = (\<lambda>p. Inr ''An answer.''),
      repr = sample_repr\<rparr>"

definition only_answer :: inputs where
  "only_answer =
     \<lparr>show_maps = False, show_images = False, show_videos = False, show_shopping = False,
      query = ''cats'', search_button = True\<rparr>"


text \<open>A world where every request is answered with status 500 and the agent fails.\<close>

definition env_agent_fails :: env where
  "env_agent_fails = env_down\<lparr>agent_run := (\<lambda>p. Inl (External ''ModelError''))\<rparr>"

definition all_sections :: inputs where
  "all_sections =
     \<lparr>show_maps = True, show_images = True, show_videos = True, show_shopping = True,
      query = ''cats'', search_button = True\<rparr>"



text \<open>The text after the last occurrence of a separator (the whole text where there is
  none), and the video id as the specification words it: what follows the last \<open>v=\<close> of
  the link, cut at the first \<open>&\<close>.\<close>

fun after_last :: "string \<Rightarrow> string \<Rightarrow> string" where
  "after_last sep [] = []"
| "after_last sep (c # cs) =
     (if sublist sep cs then after_last sep cs
      else if prefix sep (c # cs) then drop (length sep) (c # cs)
      else c # cs)"

definition video_id_spec :: "string \<Rightarrow> string" where
  "video_id_spec link = takeWhile (\<lambda>c. c \<noteq> CHR ''&'') (after_last ''v='' link)"

text \<open>A field that is a text where it is present, and the text of a value.\<close>

definition text_field :: "(string \<times> json) list \<Rightarrow> string \<Rightarrow> bool" where
  "text_field fs key =
     (case map_of fs key of None \<Rightarrow> True | Some v \<Rightarrow> (case v of JStr s \<Rightarrow> True | _ \<Rightarrow> False))"

fun text_of :: "json \<Rightarrow> string" where
  "text_of (JStr s) = s"
| "text_of v = []"

text \<open>The two conditions of the specification on a video: its source, stripped and
  lowercased, is \<open>youtube\<close>; its link contains \<open>youtube.com/watch?v=\<close>.\<close>

definition from_youtube :: "(string \<times> json) list \<Rightarrow> bool" where
  "from_youtube fs = (lower (strip (text_of (field_or fs ''source'' (JStr '''')))) = ''youtube'')"

definition has_watch_link :: "(string \<times> json) list \<Rightarrow> bool" where
  "has_watch_link fs = sublist ''youtube.com/watch?v='' (text_of (field_or fs ''link'' (JStr ''#'')))"

text \<open>Four videos: one from YouTube with a watch link, one from elsewhere, one from
  YouTube with a short link, one from YouTube whose watch link has a later \<open>v=\<close>.\<close>

definition sample_videos :: "(string \<times> json) list list" where
  "sample_videos =
     [[(''title'', JStr ''A''), (''source'', JStr '' YouTube ''),
       (''link'', JStr ''https://www.youtube.com/watch?v=abc&t=1'')],
      [(''source'', JStr ''Vimeo''), (''link'', JStr ''https://vimeo.com/1'')],
      [(''source'', JStr ''youtube''), (''link'', JStr ''https://youtu.be/xyz'')],
      [(''source'', JStr ''YOUTUBE''),
       (''link'', JStr ''https://www.youtube.com/watch?v=one&rv=two&x'')]]"

section \<open>Words for runs\<close>

text \<open>What a search returned in a world, \<open>None\<close> standing in where it raised; the five
  results a run works with; the container of the section that a vertical feeds; and
  whether an event is the request of a vertical or a widget of its section.\<close>

definition result_of :: "env \<Rightarrow> string \<Rightarrow> string \<Rightarrow> json" where
  "result_of env q search_type =
     (case outcome (serper_search env q search_type) of Inl e \<Rightarrow> JNull | Inr v \<Rightarrow> v)"

definition results_of :: "env \<Rightarrow> inputs \<Rightarrow> json \<times> json \<times> json \<times> json \<times> json" where
  "results_of env inp =
     (result_of env (query inp) ''search'',
      if show_maps inp then result_of env (query inp) ''maps'' else JNull,
      if show_images inp then result_of env (query inp) ''images'' else JNull,
      if show_videos inp then result_of env (query inp) ''videos'' else JNull,
      if show_shopping inp then result_of env (query inp) ''shopping'' else JNull)"

definition section_of :: "string \<Rightarrow> place" where
  "section_of search_type =
     (if search_type = ''shopping'' then Shopping_container
      else if search_type = ''videos'' then Video_container
      else if search_type = ''images'' then Image_container
      else if search_type = ''maps'' then Maps_container
      else Text_container)"

fun concerns :: "string \<Rightarrow> event \<Rightarrow> bool" where
  "concerns search_type (Post url hs body) = (url = endpoint search_type)"
| "concerns search_type (Ui p w) = (container_of p = section_of search_type)"
| "concerns search_type e = False"

section \<open>Running computations\<close>

lemma io_bind_Inl: "io_bind (es, Inl e) f = (es, Inl e)"
  by (simp add: io_bind_def)

lemma io_bind_Inr: "io_bind (es, Inr x) f = (es @ fst (f x), snd (f x))"
  by (simp add: io_bind_def split: prod.splits)

lemma io_bind_return [simp]: "io_bind (io_return x) f = f x"
  by (simp add: io_return_def io_bind_Inr)

lemma io_bind_lift_Inr [simp]: "io_bind (io_lift (Inr x)) f = f x"
  by (simp add: io_lift_def io_bind_Inr)

lemma io_bind_lift_Inl [simp]: "io_bind (io_lift (Inl e)) f = ([], Inl e)"
  by (simp add: io_lift_def io_bind_Inl)

lemma io_bind_ui: "io_bind (ui p w) f = (Ui p w # fst (f ()), snd (f ()))"
  by (simp add: ui_def io_bind_Inr)

lemma and_then_Inr [simp]: "and_then (Inr x) f = f x"
  by (simp add: and_then_def)

lemma and_then_Inl [simp]: "and_then (Inl e) f = Inl e"
  by (simp add: and_then_def)

lemma events_pair [simp]: "events (es, r) = es"
  by (simp add: events_def)

lemma outcome_pair [simp]: "outcome (es, r) = r"
  by (simp add: outcome_def)

lemma events_bind:
  "events (io_bind m f) = events m @ (case outcome m of Inl e \<Rightarrow> [] | Inr x \<Rightarrow> events (f x))"
  by (cases m) (auto simp: events_def outcome_def io_bind_def split: sum.splits prod.splits)

lemma outcome_bind:
  "outcome (io_bind m f) = (case outcome m of Inl e \<Rightarrow> Inl e | Inr x \<Rightarrow> outcome (f x))"
  by (cases m) (auto simp: events_def outcome_def io_bind_def split: sum.splits prod.splits)

section \<open>The request dispatcher\<close>

lemma serper_search_eq:
  "serper_search env q search_type =
     ([Post (endpoint search_type) (headers env) (JObj [(''q'', JStr q)])],
      (case post env (endpoint search_type) (headers env) (JObj [(''q'', JStr q)]) of
         Inl e \<Rightarrow> Inl e
       | Inr r \<Rightarrow> if status_code r = 200 then json_body r else Inr JNull))"
  by (simp add: serper_search_def requests_post_def io_bind_def io_lift_def io_return_def
        split: sum.splits)


lemma endpoint_unknown:
  "search_type \<notin> {''shopping'', ''videos'', ''images'', ''maps''}
   \<Longrightarrow> endpoint search_type = ''https://google.serper.dev/search''"
  by (simp add: endpoint_def SEARCH_URL_def)

text \<open>
  C8. Whatever \<open>search_type\<close> is, if it is none of \<open>shopping\<close>, \<open>videos\<close>, \<open>images\<close> and
  \<open>maps\<close> the one request goes to the general web-search address, and the call behaves as
  the call for \<open>search\<close> does: the name raises nothing.
\<close>

theorem serper_search_unknown_type:
  assumes "search_type \<notin> {''shopping'', ''videos'', ''images'', ''maps''}"
  shows "events (serper_search env q search_type)
           = [Post ''https://google.serper.dev/search'' (headers env) (JObj [(''q'', JStr q)])]
       \<and> serper_search env q search_type = serper_search env q ''search''"
  using endpoint_unknown [OF assms] endpoint_unknown [of "''search''"]
  by (simp add: serper_search_eq events_def)

theorem serper_search_unknown_type_witness:
  "''news'' \<notin> {''shopping'', ''videos'', ''images'', ''maps''}
   \<and> events (serper_search env_down ''cats'' ''news'')
       = [Post ''https://google.serper.dev/search''
            [(''X-API-KEY'', Some ''secret''), (''Content-Type'', Some ''application/json'')]
            (JObj [(''q'', JStr ''cats'')])]
   \<and> serper_search env_down ''cats'' ''news'' = serper_search env_down ''cats'' ''search''"
proof -
  have h: "''news'' \<notin> {''shopping'', ''videos'', ''images'', ''maps''}"
    by simp
  have "headers env_down
          = [(''X-API-KEY'', Some ''secret''), (''Content-Type'', Some ''application/json'')]"
    by (simp add: headers_def env_down_def)
  with serper_search_unknown_type [OF h, of env_down "''cats''"] h show ?thesis
    by metis
qed

section \<open>What each section reads\<close>

lemma has_results_obj: "has_results (JObj kvs) key = Inr (map_of kvs key \<noteq> None)"
proof -
  have "map_of kvs key \<noteq> None \<longleftrightarrow> key \<in> fst ` set kvs"
    by (simp add: map_of_eq_None_iff)
  then show ?thesis
    by (cases kvs) (simp_all add: has_results_def)
qed

lemma has_results_null [simp]: "has_results JNull key = Inr False"
  by (simp add: has_results_def)






lemma maps_section_null:
  "maps_section env JNull =
     ([Ui Maps_container (Markdown (''### '' @ [CHR 0xF0, CHR 0x9F, CHR 0x97, CHR 0xBA, CHR 0xEF, CHR 0xB8, CHR 0x8F] @ '' Map Results'')),
       Ui Maps_container (Info ''No map results available for this query.'')], Inr ())"
  by (simp add: maps_section_def has_places_def ui_def io_bind_Inr)

lemma image_section_null:
  "image_section env JNull =
     ([Ui Image_container (Markdown (''### '' @ [CHR 0xF0, CHR 0x9F, CHR 0x96, CHR 0xBC, CHR 0xEF, CHR 0xB8, CHR 0x8F] @ '' Image Results'')),
       Ui Image_container (Info ''No image results available for this query.'')], Inr ())"
  by (simp add: image_section_def ui_def io_bind_Inr)

lemma video_section_null:
  "video_section env JNull =
     ([Ui Video_container (Markdown (''### '' @ [CHR 0xF0, CHR 0x9F, CHR 0x93, CHR 0xB9] @ '' Related Videos'')),
       Ui Video_container (Info ''No video results available.'')], Inr ())"
  by (simp add: video_section_def ui_def io_bind_Inr)

lemma shopping_section_null:
  "shopping_section env JNull =
     ([Ui Shopping_container (Markdown (''### '' @ [CHR 0xF0, CHR 0x9F, CHR 0x9B, CHR 0x92] @ '' Related Products'')),
       Ui Shopping_container (Info ''No shopping results available for this query.'')], Inr ())"
  by (simp add: shopping_section_def ui_def io_bind_Inr)

lemma text_section_null:
  "text_section env q JNull =
     io_bind (ui Text_container (Markdown (''### '' @ [CHR 0xF0, CHR 0x9F, CHR 0x93, CHR 0x9D] @ '' AI Answer''))) (\<lambda>_.
     io_bind (assistant_run env (prompt q [])) (\<lambda>answer.
       ui Text_container (Markdown answer)))"
  by (simp add: text_section_def search_content_def ui_def io_return_def io_bind_Inr)

lemma serper_search_not_200:
  assumes "post env (endpoint search_type) (headers env) (JObj [(''q'', JStr q)]) = Inr r"
    and "status_code r \<noteq> 200"
  shows "serper_search env q search_type
           = ([Post (endpoint search_type) (headers env) (JObj [(''q'', JStr q)])], Inr JNull)"
  using assms by (simp add: serper_search_eq)

lemma serper_search_200:
  assumes "post env (endpoint search_type) (headers env) (JObj [(''q'', JStr q)]) = Inr r"
    and "status_code r = 200"
  shows "serper_search env q search_type
           = ([Post (endpoint search_type) (headers env) (JObj [(''q'', JStr q)])], json_body r)"
  using assms by (simp add: serper_search_eq)



text \<open>
  C3. A response whose status is not 200 makes \<open>serper_search\<close> return \<open>None\<close> after its
  one request, without an exception; with status 200 it returns what \<open>response.json()\<close>
  gives. Each of the four optional sections whose search returned \<open>None\<close> is its heading
  and one informational message. The answer section has no such message: the agent is
  asked with no search results in the prompt and its answer is written.
\<close>

theorem non_200_is_no_data:
  assumes "post env (endpoint search_type) (headers env) (JObj [(''q'', JStr q)]) = Inr r"
  shows "(status_code r \<noteq> 200 \<longrightarrow>
            serper_search env q search_type
              = ([Post (endpoint search_type) (headers env) (JObj [(''q'', JStr q)])], Inr JNull))
       \<and> (status_code r = 200 \<longrightarrow>
            serper_search env q search_type
              = ([Post (endpoint search_type) (headers env) (JObj [(''q'', JStr q)])], json_body r))
       \<and> maps_section env JNull =
            ([Ui Maps_container (Markdown (''### '' @ [CHR 0xF0, CHR 0x9F, CHR 0x97, CHR 0xBA, CHR 0xEF, CHR 0xB8, CHR 0x8F] @ '' Map Results'')),
              Ui Maps_container (Info ''No map results available for this query.'')], Inr ())
       \<and> image_section env JNull =
            ([Ui Image_container (Markdown (''### '' @ [CHR 0xF0, CHR 0x9F, CHR 0x96, CHR 0xBC, CHR 0xEF, CHR 0xB8, CHR 0x8F] @ '' Image Results'')),
              Ui Image_container (Info ''No image results available for this query.'')], Inr ())
       \<and> video_section env JNull =
            ([Ui Video_container (Markdown (''### '' @ [CHR 0xF0, CHR 0x9F, CHR 0x93, CHR 0xB9] @ '' Related Videos'')),
              Ui Video_container (Info ''No video results available.'')], Inr ())
       \<and> shopping_section env JNull =
            ([Ui Shopping_container (Markdown (''### '' @ [CHR 0xF0, CHR 0x9F, CHR 0x9B, CHR 0x92] @ '' Related Products'')),
              Ui Shopping_container (Info ''No shopping results available for this query.'')], Inr ())
       \<and> text_section env q' JNull =
            io_bind (ui Text_container (Markdown (''### '' @ [CHR 0xF0, CHR 0x9F, CHR 0x93, CHR 0x9D] @ '' AI Answer''))) (\<lambda>_.
            io_bind (assistant_run env (prompt q' [])) (\<lambda>answer.
              ui Text_container (Markdown answer)))"
  using serper_search_not_200 [OF assms] serper_search_200 [OF assms]
    maps_section_null [of env] image_section_null [of env] video_section_null [of env]
    shopping_section_null [of env] text_section_null [of env q']
  by blast

theorem non_200_is_no_data_witness:
  "post env_down (endpoint ''videos'') (headers env_down) (JObj [(''q'', JStr ''cats'')])
     = Inr \<lparr>status_code = 500, json_body = Inl (External ''JSONDecodeError'')\<rparr>
   \<and> (500::int) \<noteq> 200
   \<and> serper_search env_down ''cats'' ''videos''
       = ([Post (endpoint ''videos'') (headers env_down) (JObj [(''q'', JStr ''cats'')])], Inr JNull)
   \<and> video_section env_down JNull =
        ([Ui Video_container (Markdown (''### '' @ [CHR 0xF0, CHR 0x9F, CHR 0x93, CHR 0xB9] @ '' Related Videos'')),
          Ui Video_container (Info ''No video results available.'')], Inr ())"
proof -
  have h: "post env_down (endpoint ''videos'') (headers env_down) (JObj [(''q'', JStr ''cats'')])
             = Inr \<lparr>status_code = 500, json_body = Inl (External ''JSONDecodeError'')\<rparr>"
    by (simp add: env_down_def)
  show ?thesis
    using non_200_is_no_data [OF h, of "''cats''"] h by simp
qed

text \<open>The claim as it is written fails for the answer section: with every request
  answered by status 500 the general search returns \<open>None\<close>, and the answer section is the
  heading and the answer of the agent, with no informational message.\<close>

theorem answer_section_has_no_empty_state:
  "outcome (serper_search env_down ''cats'' ''search'') = Inr JNull
   \<and> written_to Text_container (events (main env_down only_answer))
       = [Markdown (''### '' @ [CHR 0xF0, CHR 0x9F, CHR 0x93, CHR 0x9D] @ '' AI Answer''),
          Markdown ''An answer.'']"
  by (simp add: main_def process_query_def show_sections_def fetch_results_def fetch_if_def serper_search_eq env_down_def
        only_answer_def text_section_null assistant_run_def container_if_def
        ui_def io_return_def io_bind_Inr)

section \<open>Where the events of a computation lie\<close>

lemma events_return [simp]: "events (io_return x) = []"
  by (simp add: events_def io_return_def)

lemma events_lift [simp]: "events (io_lift r) = []"
  by (simp add: events_def io_lift_def)

lemma events_ui [simp]: "events (ui p w) = [Ui p w]"
  by (simp add: events_def ui_def)

lemma outcome_return [simp]: "outcome (io_return x) = Inr x"
  by (simp add: outcome_def io_return_def)

lemma outcome_lift [simp]: "outcome (io_lift r) = r"
  by (simp add: outcome_def io_lift_def)

lemma outcome_ui [simp]: "outcome (ui p w) = Inr ()"
  by (simp add: outcome_def ui_def)

lemma all_bind:
  assumes "list_all P (events m)" and "\<And>x. list_all P (events (f x))"
  shows "list_all P (events (io_bind m f))"
  using assms by (simp add: events_bind split: sum.splits)

lemma all_foreach:
  assumes "\<And>x. list_all P (events (body x))"
  shows "list_all P (events (io_foreach body xs))"
  by (induction xs) (simp_all add: all_bind assms)

lemma all_if:
  assumes "b \<Longrightarrow> list_all P (events m)" and "\<not> b \<Longrightarrow> list_all P (events m')"
  shows "list_all P (events (if b then m else m'))"
  using assms by simp

lemma all_case_prod:
  assumes "\<And>a b. list_all P (events (f a b))"
  shows "list_all P (events (case x of (a, b) \<Rightarrow> f a b))"
  using assms by (cases x) simp

lemma all_case_option:
  assumes "list_all P (events m)" and "\<And>a. list_all P (events (f a))"
  shows "list_all P (events (case x of None \<Rightarrow> m | Some a \<Rightarrow> f a))"
  using assms by (cases x) simp_all

lemmas all_intros = all_bind all_foreach all_if all_case_prod all_case_option

lemma written_to_append [simp]: "written_to c (es @ es') = written_to c es @ written_to c es'"
  by (induction c es rule: written_to.induct) simp_all

lemma posted_to_append [simp]: "posted_to (es @ es') = posted_to es @ posted_to es'"
  by (induction es rule: posted_to.induct) simp_all

lemma prompts_of_append [simp]: "prompts_of (es @ es') = prompts_of es @ prompts_of es'"
  by (induction es rule: prompts_of.induct) simp_all


lemma is_post_quiet:
  assumes "list_all is_post es"
  shows "written_to c es = []" and "prompts_of es = []"
  using assms
  by (induction es rule: written_to.induct) auto



lemma maps_section_in_maps:
  "list_all (in_container Maps_container) (events (maps_section env r))"
  unfolding maps_section_def by (intro all_intros; simp)

lemma image_entry_in_image:
  "list_all (in_container Image_container) (events (image_entry x))"
  unfolding image_entry_def by (intro all_intros; simp)

lemma image_section_in_image:
  "list_all (in_container Image_container) (events (image_section env r))"
  unfolding image_section_def by (intro all_intros image_entry_in_image; simp)

lemma video_entry_in_video:
  "list_all (in_container Video_container) (events (video_entry rp x))"
  unfolding video_entry_def by (intro all_intros; simp)

lemma video_section_in_video:
  "list_all (in_container Video_container) (events (video_section env r))"
  unfolding video_section_def by (intro all_intros video_entry_in_video; simp)

lemma shopping_section_in_shopping:
  "list_all (in_container Shopping_container) (events (shopping_section env r))"
  unfolding shopping_section_def by (intro all_intros; simp)

lemma serper_search_posts: "list_all is_post (events (serper_search env q st))"
  by (simp add: serper_search_eq events_def)

lemma fetch_if_posts: "list_all is_post (events (fetch_if env q b st))"
  by (simp add: fetch_if_def serper_search_posts)

lemma fetch_results_posts: "list_all is_post (events (fetch_results env inp))"
  unfolding fetch_results_def by (intro all_intros serper_search_posts fetch_if_posts; simp)

section \<open>The answer of the agent\<close>

lemma map_err_total:
  assumes "\<And>x. x \<in> set xs \<Longrightarrow> f x = Inr (g x)"
  shows "map_err f xs = Inr (map g xs)"
  using assms by (induction xs) simp_all

lemma py_get_obj: "py_get (JObj fs) key dflt = Inr (field_or fs key dflt)"
  by (simp add: field_or_def)








section \<open>The page as a whole\<close>

lemma events_container_if [simp]:
  "events (container_if b p) = (if b then [Ui Page (Container p)] else [])"
  by (simp add: container_if_def events_bind)

lemma outcome_container_if [simp]:
  "outcome (container_if b p) = Inr (if b then Some p else None)"
  by (simp add: container_if_def outcome_bind)

lemma text_section_agent_fails:
  assumes "search_content (repr env) sr = Inr content"
    and "agent_run env (prompt q content) = Inl e"
  shows "text_section env q sr =
     ([Ui Text_container (Markdown (''### '' @ [CHR 0xF0, CHR 0x9F, CHR 0x93, CHR 0x9D] @ '' AI Answer'')),
       Agent_run (prompt q content)], Inl e)"
  using assms by (simp add: text_section_def assistant_run_def io_bind_ui io_bind_Inl)

lemma process_query_agent_fails:
  assumes "outcome (fetch_results env inp) = Inr (sr, mr, ir, vr, shr)"
    and "search_content (repr env) sr = Inr content"
    and "agent_run env (prompt (query inp) content) = Inl e"
  shows "outcome (process_query env inp) = Inl e"
    and "events (process_query env inp) =
       [Ui Page (Container Progress_placeholder),
        Ui Progress_placeholder (Info ([CHR 0xF0, CHR 0x9F, CHR 0x94, CHR 0x8D] @ '' Searching for information...'')),
        Ui Page (Container Text_container)]
       @ events (container_if (show_maps inp) Maps_container)
       @ events (container_if (show_images inp) Image_container)
       @ events (container_if (show_videos inp) Video_container)
       @ events (container_if (show_shopping inp) Shopping_container)
       @ events (fetch_results env inp)
       @ [Clear Progress_placeholder,
          Ui Text_container (Markdown (''### '' @ [CHR 0xF0, CHR 0x9F, CHR 0x93, CHR 0x9D] @ '' AI Answer'')),
          Agent_run (prompt (query inp) content)]"
  using assms(1) text_section_agent_fails [OF assms(2,3)]
  by (simp_all add: process_query_def show_sections_def events_bind outcome_bind del: events_container_if)

lemma main_searching:
  assumes "search_button inp" and "query inp \<noteq> []"
  shows "outcome (main env inp) = outcome (process_query env inp)"
    and "events (main env inp) =
      [Ui Page (Title ([CHR 0xF0, CHR 0x9F, CHR 0x94, CHR 0x8D] @ '' Perplexity AI'')),
       Ui Sidebar (Title ''Content Sections''),
       Ui Sidebar (Write ''Select which content sections to display in results:''),
       Ui Sidebar (Checkbox ([CHR 0xF0, CHR 0x9F, CHR 0x93, CHR 0x9D] @ '' AI Answer'') True True),
       Ui Sidebar (Checkbox ([CHR 0xF0, CHR 0x9F, CHR 0x97, CHR 0xBA, CHR 0xEF, CHR 0xB8, CHR 0x8F] @ '' Map Results'') False False),
       Ui Sidebar (Checkbox ([CHR 0xF0, CHR 0x9F, CHR 0x96, CHR 0xBC, CHR 0xEF, CHR 0xB8, CHR 0x8F] @ '' Image Results'') False False),
       Ui Sidebar (Checkbox ([CHR 0xF0, CHR 0x9F, CHR 0x93, CHR 0xB9] @ '' Related Videos'') False False),
       Ui Sidebar (Checkbox ([CHR 0xF0, CHR 0x9F, CHR 0x9B, CHR 0x92] @ '' Related Products'') False False),
       Ui Page (Text_area ''Ask me anything:''),
       Ui Page (Button ([CHR 0xF0, CHR 0x9F, CHR 0x94, CHR 0x8D] @ '' Search''))]
      @ events (process_query env inp)"
  using assms by (simp_all add: main_def events_bind outcome_bind)

lemma main_searching_reads:
  assumes "search_button inp" and "query inp \<noteq> []"
  shows "posted_to (events (main env inp)) = posted_to (events (process_query env inp))"
    and "prompts_of (events (main env inp)) = prompts_of (events (process_query env inp))"
    and "c \<noteq> Page \<Longrightarrow> c \<noteq> Sidebar \<Longrightarrow>
           written_to c (events (main env inp)) = written_to c (events (process_query env inp))"
  by (simp_all add: main_searching(2) [OF assms])

text \<open>
  C7. Nothing catches a failure of the agent. In a run that reaches the call (the
  searches returned and the prompt was built), if \<open>assistant.run\<close> raises then the page
  function ends with that exception, the call is the last thing the run did, the answer
  section holds its heading only, and no other section has been written: no answer, no
  informational message.
\<close>

theorem agent_failure_aborts_page:
  assumes "search_button inp" and "query inp \<noteq> []"
    and "outcome (fetch_results env inp) = Inr (sr, mr, ir, vr, shr)"
    and "search_content (repr env) sr = Inr content"
    and "agent_run env (prompt (query inp) content) = Inl e"
  shows "outcome (main env inp) = Inl e
       \<and> last (events (main env inp)) = Agent_run (prompt (query inp) content)
       \<and> written_to Text_container (events (main env inp))
           = [Markdown (''### '' @ [CHR 0xF0, CHR 0x9F, CHR 0x93, CHR 0x9D] @ '' AI Answer'')]
       \<and> written_to Maps_container (events (main env inp)) = []
       \<and> written_to Image_container (events (main env inp)) = []
       \<and> written_to Video_container (events (main env inp)) = []
       \<and> written_to Shopping_container (events (main env inp)) = []"
proof -
  note pq = process_query_agent_fails [OF assms(3,4,5)]
  have quiet: "written_to c (events (fetch_results env inp)) = []" for c
    using fetch_results_posts by (rule is_post_quiet)
  have "outcome (main env inp) = Inl e"
    using main_searching(1) [OF assms(1,2)] pq(1) by simp
  moreover have "last (events (main env inp)) = Agent_run (prompt (query inp) content)"
    by (simp add: main_searching(2) [OF assms(1,2)] pq(2))
  moreover have "written_to Text_container (events (main env inp))
           = [Markdown (''### '' @ [CHR 0xF0, CHR 0x9F, CHR 0x93, CHR 0x9D] @ '' AI Answer'')]"
    by (simp add: main_searching_reads(3) [OF assms(1,2)] pq(2) quiet)
  moreover have "written_to Maps_container (events (main env inp)) = []"
    by (simp add: main_searching_reads(3) [OF assms(1,2)] pq(2) quiet)
  moreover have "written_to Image_container (events (main env inp)) = []"
    by (simp add: main_searching_reads(3) [OF assms(1,2)] pq(2) quiet)
  moreover have "written_to Video_container (events (main env inp)) = []"
    by (simp add: main_searching_reads(3) [OF assms(1,2)] pq(2) quiet)
  moreover have "written_to Shopping_container (events (main env inp)) = []"
    by (simp add: main_searching_reads(3) [OF assms(1,2)] pq(2) quiet)
  ultimately show ?thesis
    by blast
qed

lemma fetch_results_down:
  "outcome (fetch_results env_agent_fails all_sections) = Inr (JNull, JNull, JNull, JNull, JNull)"
  by (simp add: fetch_results_def fetch_if_def serper_search_eq env_agent_fails_def env_down_def all_sections_def
        outcome_bind)

theorem agent_failure_aborts_page_witness:
  "search_button all_sections \<and> query all_sections \<noteq> []
   \<and> outcome (fetch_results env_agent_fails all_sections) = Inr (JNull, JNull, JNull, JNull, JNull)
   \<and> search_content (repr env_agent_fails) JNull = Inr []
   \<and> agent_run env_agent_fails (prompt (query all_sections) []) = Inl (External ''ModelError'')
   \<and> outcome (main env_agent_fails all_sections) = Inl (External ''ModelError'')
   \<and> last (events (main env_agent_fails all_sections)) = Agent_run (prompt ''cats'' [])
   \<and> written_to Maps_container (events (main env_agent_fails all_sections)) = []"
proof -
  have a: "search_button all_sections" and b: "query all_sections \<noteq> []"
    by (simp_all add: all_sections_def)
  have c: "search_content (repr env_agent_fails) JNull = Inr []"
    by (simp add: search_content_def)
  have d: "agent_run env_agent_fails (prompt (query all_sections) []) = Inl (External ''ModelError'')"
    by (simp add: env_agent_fails_def)
  have q: "query all_sections = ''cats''"
    by (simp add: all_sections_def)
  show ?thesis
    using agent_failure_aborts_page [OF a b fetch_results_down c d] a b c d fetch_results_down q
    by simp
qed

section \<open>Defaults, markers and cards\<close>


lemma field_or_present: "map_of fs key = Some v \<Longrightarrow> field_or fs key dflt = v"
  by (simp add: field_or_def)







lemma is_youtube_obj:
  "is_youtube (JObj fs) =
     and_then (py_strip (field_or fs ''source'' (JStr ''''))) (\<lambda>stripped.
     and_then (py_lower stripped) (\<lambda>lowered. Inr (lowered = JStr ''youtube'')))"
  by (simp add: is_youtube_def py_get_obj del: py_get.simps)

lemma video_entry_obj:
  "video_entry rp (idx, JObj fs) =
     io_bind (io_lift (embed_url (field_or fs ''link'' (JStr ''#'')))) (\<lambda>embed.
       case embed of
         None \<Rightarrow> io_return ()
       | Some url \<Rightarrow>
           io_bind (ui (Column Video_container (idx mod 3)) (Video url)) (\<lambda>_.
             ui (Column Video_container (idx mod 3))
               (Markdown (video_caption (fmt rp (field_or fs ''title'' (JStr ''Unknown Video'')))
                  (fmt rp (field_or fs ''channel'' (JStr ''Unknown Channel'')))
                  (fmt rp (field_or fs ''duration'' (JStr ''Unknown duration'')))))))"
  by (simp add: video_entry_def py_get_obj del: py_get.simps)

















section \<open>Videos\<close>

lemma split_from_nonempty: "split_from sep cur s \<noteq> []"
  by (induction sep cur s rule: split_from.induct) auto

lemma split_from_no_occurrence:
  "\<not> sublist sep s \<Longrightarrow> split_from sep cur s = [cur @ s]"
proof (induction sep cur s rule: split_from.induct)
  case (1 sep cur)
  then show ?case by simp
next
  case (2 sep cur c cs)
  from "2.prems" have np: "\<not> prefix sep (c # cs)" and ns: "\<not> sublist sep cs"
    by (auto simp: sublist_Cons_right)
  with "2.IH"(2) show ?case
    by simp
qed

lemma last_split_from:
  assumes "a \<noteq> b" and "sublist [a, b] s"
  shows "last (split_from [a, b] cur s) = after_last [a, b] s"
  using assms(2)
proof (induction "[a, b]" cur s rule: split_from.induct)
  case (1 cur)
  then show ?case by simp
next
  case (2 cur c cs)
  show ?case
  proof (cases "prefix [a, b] (c # cs)")
    case True
    then obtain rest where cs: "c = a" "cs = b # rest"
      by (auto simp: prefix_def)
    have nb: "\<not> prefix [a, b] (b # rest)"
      using assms(1) by simp
    show ?thesis
    proof (cases "sublist [a, b] rest")
      case True
      with "2.hyps"(1) cs nb assms(1) show ?thesis
        by (simp add: split_from_nonempty sublist_Cons_right)
    next
      case False
      with cs nb assms(1) show ?thesis
        by (simp add: split_from_no_occurrence sublist_Cons_right)
    qed
  next
    case False
    with "2.prems" have sub: "sublist [a, b] cs"
      by (auto simp: sublist_Cons_right)
    from False have n: "\<not> ([a, b] \<noteq> [] \<and> prefix [a, b] (c # cs))"
      by simp
    have "split_from [a, b] cur (c # cs) = split_from [a, b] (cur @ [c]) cs"
      using n by (simp only: split_from.simps if_False)
    moreover have "after_last [a, b] (c # cs) = after_last [a, b] cs"
      using sub by (simp only: after_last.simps if_True)
    ultimately show ?thesis
      using "2.hyps"(2) [OF n sub] by (simp only:)
  qed
qed

lemma hd_split_from_char:
  "hd (split_from [a] cur s) = cur @ takeWhile (\<lambda>c. c \<noteq> a) s"
  by (induction "[a]" cur s rule: split_from.induct) auto

lemma sublist_trans_v:
  assumes "sublist ''youtube.com/watch?v='' l"
  shows "sublist ''v='' l"
proof -
  have "sublist ''v='' ''youtube.com/watch?v=''"
    by (rule suffix_imp_sublist) (simp add: suffix_def)
  then show ?thesis
    using assms sublist_order.order_trans by blast
qed

lemma last_piece_nonempty: "ps \<noteq> [] \<Longrightarrow> last_piece ps = Inr (last ps)"
  by (cases ps rule: rev_cases) (simp_all add: last_piece_def)

lemma head_piece_nonempty: "ps \<noteq> [] \<Longrightarrow> head_piece ps = Inr (hd ps)"
  by (cases ps) (simp_all add: head_piece_def)

lemma embed_url_text:
  "embed_url (JStr l) =
     Inr (if sublist ''youtube.com/watch?v='' l
          then Some (''https://www.youtube.com/embed/'' @ video_id_spec l) else None)"
proof (cases "sublist ''youtube.com/watch?v='' l")
  case True
  have "last (split ''v='' l) = after_last ''v='' l"
    unfolding split_def by (rule last_split_from) (simp, rule sublist_trans_v [OF True])
  moreover have "hd (split ''&'' r) = takeWhile (\<lambda>c. c \<noteq> CHR ''&'') r" for r
    unfolding split_def by (simp add: hd_split_from_char)
  ultimately show ?thesis
    using True
    by (simp add: embed_url_def split_def split_from_nonempty last_piece_nonempty
          head_piece_nonempty video_id_spec_def)
next
  case False
  then show ?thesis
    by (simp add: embed_url_def)
qed

lemma text_field_value:
  assumes "text_field fs key"
  shows "field_or fs key (JStr d) = JStr (text_of (field_or fs key (JStr d)))"
  using assms by (auto simp: text_field_def field_or_def split: option.splits json.splits)

lemma is_youtube_text:
  assumes "text_field fs ''source''"
  shows "is_youtube (JObj fs) = Inr (from_youtube fs)"
  by (subst is_youtube_obj, subst text_field_value [OF assms]) (simp add: from_youtube_def)

lemma video_entry_text:
  assumes "text_field fs ''link''"
  shows "video_entry rp (idx, JObj fs) =
     ((if has_watch_link fs
       then [Ui (Column Video_container (idx mod 3))
               (Video (''https://www.youtube.com/embed/''
                  @ video_id_spec (text_of (field_or fs ''link'' (JStr ''#''))))),
             Ui (Column Video_container (idx mod 3))
               (Markdown (video_caption (fmt rp (field_or fs ''title'' (JStr ''Unknown Video'')))
                  (fmt rp (field_or fs ''channel'' (JStr ''Unknown Channel'')))
                  (fmt rp (field_or fs ''duration'' (JStr ''Unknown duration'')))))]
       else []), Inr ())"
  by (subst video_entry_obj, subst text_field_value [OF assms])
     (simp add: embed_url_text has_watch_link_def io_bind_Inr ui_def io_return_def)

lemma filter_err_map_total:
  assumes "\<And>x. x \<in> set xs \<Longrightarrow> p (h x) = Inr (q x)"
  shows "filter_err p (map h xs) = Inr (map h (filter q xs))"
  using assms by (induction xs) simp_all

lemma foreach_total:
  assumes "\<And>x. x \<in> set xs \<Longrightarrow> body x = (g x, Inr ())"
  shows "io_foreach body xs = (concat (map g xs), Inr ())"
  using assms by (induction xs) (simp_all add: io_return_def io_bind_Inr)

lemma enumerate_map: "enumerate n (map h xs) = map (\<lambda>(i, x). (i, h x)) (enumerate n xs)"
  by (induction xs arbitrary: n) simp_all

lemma after_last_is_after_last:
  assumes "sep \<noteq> []" and "sublist sep s"
  shows "(\<exists>pre. s = pre @ sep @ after_last sep s) \<and> \<not> sublist sep (after_last sep s)"
  using assms(2)
proof (induction s)
  case Nil
  with assms(1) show ?case by simp
next
  case (Cons c cs)
  show ?case
  proof (cases "sublist sep cs")
    case True
    from Cons.IH [OF True] obtain pre where "cs = pre @ sep @ after_last sep cs"
      and n: "\<not> sublist sep (after_last sep cs)"
      by blast
    then have "c # cs = (c # pre) @ sep @ after_last sep cs"
      by simp
    with n True show ?thesis
      by (metis after_last.simps(2))
  next
    case False
    with Cons.prems have p: "prefix sep (c # cs)"
      by (simp add: sublist_Cons_right)
    then have eq: "c # cs = sep @ drop (length sep) (c # cs)"
      by (metis append_eq_conv_conj prefix_def)
    have "suffix (drop (length sep) (c # cs)) cs"
      using assms(1) by (cases sep) (simp_all add: suffix_drop)
    then have "\<not> sublist sep (drop (length sep) (c # cs))"
      using False by (meson sublist_order.order_trans suffix_imp_sublist)
    with eq False p show ?thesis
      by (metis after_last.simps(2) append_Nil)
  qed
qed

lemma foreach_map_total:
  assumes "\<And>x. x \<in> set xs \<Longrightarrow> body (h x) = (g x, Inr ())"
  shows "io_foreach body (map h xs) = (concat (map g xs), Inr ())"
  using assms by (induction xs) (simp_all add: io_return_def io_bind_Inr)

lemma videos_of_append [simp]: "videos_of (es @ es') = videos_of es @ videos_of es'"
  by (induction es rule: videos_of.induct) simp_all

lemma videos_of_entries:
  "videos_of (concat (map (\<lambda>(idx, fs).
       if P fs then [Ui (c idx) (Video (u fs)), Ui (c idx) (Markdown (m fs))] else [])
     (enumerate n xs)))
   = map u (filter P xs)"
  by (induction xs arbitrary: n) simp_all

lemma video_section_videos:
  assumes "map_of kvs ''videos'' = Some (JArr (map JObj vfs))"
    and "\<forall>fs\<in>set vfs. text_field fs ''source'' \<and> text_field fs ''link''"
  shows "video_section env (JObj kvs) =
     (Ui Video_container (Markdown (''### '' @ [CHR 0xF0, CHR 0x9F, CHR 0x93, CHR 0xB9] @ '' Related Videos''))
      # (if filter from_youtube vfs = []
         then [Ui Video_container (Info ''No relevant videos found for this query.'')]
         else Ui Video_container (Columns [1, 1, 1])
           # concat (map (\<lambda>(idx, fs).
               if has_watch_link fs
               then [Ui (Column Video_container (idx mod 3))
                       (Video (''https://www.youtube.com/embed/''
                          @ video_id_spec (text_of (field_or fs ''link'' (JStr ''#''))))),
                     Ui (Column Video_container (idx mod 3))
                       (Markdown (video_caption
                          (fmt (repr env) (field_or fs ''title'' (JStr ''Unknown Video'')))
                          (fmt (repr env) (field_or fs ''channel'' (JStr ''Unknown Channel'')))
                          (fmt (repr env) (field_or fs ''duration'' (JStr ''Unknown duration'')))))]
               else [])
              (enumerate 0 (take 6 (filter from_youtube vfs))))), Inr ())"
proof -
  have yt: "filter_err is_youtube (map JObj vfs) = Inr (map JObj (filter from_youtube vfs))"
    by (rule filter_err_map_total) (simp add: is_youtube_text assms(2))
  have loop: "io_foreach (video_entry (repr env))
        (enumerate 0 (take 6 (map JObj (filter from_youtube vfs))))
      = (concat (map (\<lambda>(idx, fs).
               if has_watch_link fs
               then [Ui (Column Video_container (idx mod 3))
                       (Video (''https://www.youtube.com/embed/''
                          @ video_id_spec (text_of (field_or fs ''link'' (JStr ''#''))))),
                     Ui (Column Video_container (idx mod 3))
                       (Markdown (video_caption
                          (fmt (repr env) (field_or fs ''title'' (JStr ''Unknown Video'')))
                          (fmt (repr env) (field_or fs ''channel'' (JStr ''Unknown Channel'')))
                          (fmt (repr env) (field_or fs ''duration'' (JStr ''Unknown duration'')))))]
               else [])
              (enumerate 0 (take 6 (filter from_youtube vfs)))), Inr ())"
    (is "_ = (concat (map ?g _), _)")
  proof -
    have "io_foreach (video_entry (repr env))
        (map (\<lambda>(i, fs). (i, JObj fs)) (enumerate 0 (take 6 (filter from_youtube vfs))))
      = (concat (map ?g (enumerate 0 (take 6 (filter from_youtube vfs)))), Inr ())"
    proof (rule foreach_map_total)
      fix x
      assume "x \<in> set (enumerate 0 (take 6 (filter from_youtube vfs)))"
      then have "snd x \<in> set (map snd (enumerate 0 (take 6 (filter from_youtube vfs))))"
        by (simp del: map_snd_enumerate)
      then have "snd x \<in> set (take 6 (filter from_youtube vfs))"
        by (simp only: map_snd_enumerate)
      then have "snd x \<in> set vfs"
        by (meson filter_is_subset in_set_takeD subsetD)
      with assms(2) have "text_field (snd x) ''link''"
        by blast
      from video_entry_text [OF this, of "repr env" "fst x"]
      show "video_entry (repr env) (case x of (i, fs) \<Rightarrow> (i, JObj fs)) = (?g x, Inr ())"
        by (simp add: case_prod_beta)
    qed
    then show ?thesis
      by (simp only: take_map enumerate_map)
  qed
  show ?thesis
    unfolding video_section_def
    apply (simp only: has_results_obj assms(1) getitem.simps option.case iterate.simps
        and_then_Inr io_bind_lift_Inr yt)
    apply (simp add: loop io_bind_ui io_bind_Inr ui_def del: One_nat_def)
    done
qed

text \<open>
  C9. With a \<open>videos\<close> array of objects whose source and link are texts where present,
  the videos section embeds exactly, of the first six videos whose source (stripped,
  lowercased) is \<open>youtube\<close>, those whose link contains \<open>youtube.com/watch?v=\<close>, so at
  most six; the others among the six are skipped without a trace. The address embedded
  ends in the text after the last \<open>v=\<close> of the link, cut at the first \<open>&\<close>.
\<close>

theorem youtube_videos_shown:
  assumes "map_of kvs ''videos'' = Some (JArr (map JObj vfs))"
    and "\<forall>fs\<in>set vfs. text_field fs ''source'' \<and> text_field fs ''link''"
  shows "video_section env (JObj kvs) =
     (Ui Video_container (Markdown (''### '' @ [CHR 0xF0, CHR 0x9F, CHR 0x93, CHR 0xB9] @ '' Related Videos''))
      # (if filter from_youtube vfs = []
         then [Ui Video_container (Info ''No relevant videos found for this query.'')]
         else Ui Video_container (Columns [1, 1, 1])
           # concat (map (\<lambda>(idx, fs).
               if has_watch_link fs
               then [Ui (Column Video_container (idx mod 3))
                       (Video (''https://www.youtube.com/embed/''
                          @ video_id_spec (text_of (field_or fs ''link'' (JStr ''#''))))),
                     Ui (Column Video_container (idx mod 3))
                       (Markdown (video_caption
                          (fmt (repr env) (field_or fs ''title'' (JStr ''Unknown Video'')))
                          (fmt (repr env) (field_or fs ''channel'' (JStr ''Unknown Channel'')))
                          (fmt (repr env) (field_or fs ''duration'' (JStr ''Unknown duration'')))))]
               else [])
              (enumerate 0 (take 6 (filter from_youtube vfs))))), Inr ())
   \<and> videos_of (events (video_section env (JObj kvs)))
       = map (\<lambda>fs. ''https://www.youtube.com/embed/''
                   @ video_id_spec (text_of (field_or fs ''link'' (JStr ''#''))))
           (filter has_watch_link (take 6 (filter from_youtube vfs)))
   \<and> length (videos_of (events (video_section env (JObj kvs)))) \<le> 6
   \<and> (sublist ''v='' l \<longrightarrow>
        (\<exists>pre. l = pre @ ''v='' @ after_last ''v='' l) \<and> \<not> sublist ''v='' (after_last ''v='' l))
   \<and> embed_url (JStr l) =
        Inr (if sublist ''youtube.com/watch?v='' l
             then Some (''https://www.youtube.com/embed/'' @ video_id_spec l) else None)"
proof -
  note sec = video_section_videos [OF assms, of env]
  have vids: "videos_of (events (video_section env (JObj kvs)))
       = map (\<lambda>fs. ''https://www.youtube.com/embed/''
                   @ video_id_spec (text_of (field_or fs ''link'' (JStr ''#''))))
           (filter has_watch_link (take 6 (filter from_youtube vfs)))"
    by (simp add: sec videos_of_entries)
  have "length (filter has_watch_link (take 6 (filter from_youtube vfs))) \<le> 6"
    by (rule order_trans [OF length_filter_le]) simp
  then have bound: "length (videos_of (events (video_section env (JObj kvs)))) \<le> 6"
    by (simp add: vids)
  have al: "sublist ''v='' l \<longrightarrow>
        (\<exists>pre. l = pre @ ''v='' @ after_last ''v='' l) \<and> \<not> sublist ''v='' (after_last ''v='' l)"
    using after_last_is_after_last [of "''v=''" l] by simp
  show ?thesis
    using sec vids bound al embed_url_text [of l] by (intro conjI)
qed

lemma sample_videos_youtube: "filter from_youtube sample_videos
    = [sample_videos ! 0, sample_videos ! 2, sample_videos ! 3]"
  by code_simp

lemma sample_videos_watch:
  "filter has_watch_link (take 6 [sample_videos ! 0, sample_videos ! 2, sample_videos ! 3])
     = [sample_videos ! 0, sample_videos ! 3]"
  by code_simp

lemma sample_videos_ids:
  "map (\<lambda>fs. ''https://www.youtube.com/embed/''
                   @ video_id_spec (text_of (field_or fs ''link'' (JStr ''#''))))
     [sample_videos ! 0, sample_videos ! 3]
   = [''https://www.youtube.com/embed/abc'', ''https://www.youtube.com/embed/two'']"
  by code_simp

theorem youtube_videos_shown_witness:
  "map_of [(''videos'', JArr (map JObj sample_videos))] ''videos''
     = Some (JArr (map JObj sample_videos))
   \<and> list_all (\<lambda>fs. text_field fs ''source'' \<and> text_field fs ''link'') sample_videos
   \<and> videos_of (events (video_section env_down (JObj [(''videos'', JArr (map JObj sample_videos))])))
       = [''https://www.youtube.com/embed/abc'', ''https://www.youtube.com/embed/two'']
   \<and> sublist ''v='' ''watch?v=one&rv=two&x''
   \<and> after_last ''v='' ''watch?v=one&rv=two&x'' = ''two&x''"
proof -
  have a: "map_of [(''videos'', JArr (map JObj sample_videos))] ''videos''
     = Some (JArr (map JObj sample_videos))"
    by simp
  have b: "\<forall>fs\<in>set sample_videos. text_field fs ''source'' \<and> text_field fs ''link''"
    by (simp add: sample_videos_def text_field_def)
  have c: "sublist ''v='' ''watch?v=one&rv=two&x''"
    by code_simp
  have d: "after_last ''v='' ''watch?v=one&rv=two&x'' = ''two&x''"
    by code_simp
  note t = youtube_videos_shown [OF a b, of env_down "''watch?v=one&rv=two&x''"]
  from t [THEN conjunct2, THEN conjunct1] have "videos_of (events (video_section env_down (JObj [(''videos'', JArr (map JObj sample_videos))])))
       = [''https://www.youtube.com/embed/abc'', ''https://www.youtube.com/embed/two'']"
    by (simp only: sample_videos_youtube sample_videos_watch sample_videos_ids)
  then show ?thesis
    using a b c d by (simp add: list_all_iff)
qed

end
